theory Spec2Isabelle
  imports Complex_Main
begin

section \<open>Numbers, errors and NumPy primitives\<close>

text \<open>
  The notebook \<^verbatim>\<open>European.ipynb\<close> computes with Python floats and NumPy float64 arrays.
  The embedding reads every float as a \<^typ>\<open>real\<close>: \<^verbatim>\<open>np.exp\<close> is \<^term>\<open>exp\<close>,
  \<^verbatim>\<open>np.sqrt\<close> is \<^term>\<open>sqrt\<close> on a non-negative number, a NumPy array is a list, and a
  two-dimensional array is a list of rows. The arithmetic of values (rates, prices, sums) is exact: its rounding and
  overflow are not represented. The arithmetic that decides a count or an index is rounded:
  the functions that call \<^verbatim>\<open>np.arange\<close> or compute \<^verbatim>\<open>int(months_per_year*t)\<close> take the
  rounding \<open>fl\<close> of the machine as their first argument and apply it after every such
  operation.

  Every exception of the Python code is a value of \<open>error\<close>. The first four are the ones the
  code can raise. \<open>NotANumber\<close> is no exception: it stands for a result that holds NaN, which
  a real cannot, so that the model gives such a result no value.
  \<open>InvalidEnsembleSizeError\<close> and \<open>InvalidCurveError\<close> are the error names of the
  specification, which no function of the notebook raises.
\<close>

datatype error =
    IndexError
  | ValueError
  | ZeroDivisionError
  | ZeroStepError
  | NotANumber
  | InvalidEnsembleSizeError
  | InvalidCurveError

text \<open>
  Two roundings. \<open>exact\<close> rounds nothing: with it the model computes in exact arithmetic.
  \<open>double\<close> is the rounding of the notebook's machine, IEEE 754 binary64 to nearest with
  ties to even: a non-zero \<open>x\<close> with \<open>2\<^sup>e \<le> |x| < 2\<^sup>e\<^sup>+\<^sup>1\<close> goes to the nearest multiple of
  \<open>2\<^sup>e\<^sup>-\<^sup>5\<^sup>2\<close>. Overflow and subnormal numbers are left out.
\<close>

definition exact :: "real \<Rightarrow> real" where
  "exact x = x"

definition round_half_even :: "real \<Rightarrow> int" where
  "round_half_even x =
     (let f = \<lfloor>x\<rfloor>;
          d = x - of_int f
      in if d < 1 / 2 then f
         else if 1 / 2 < d then f + 1
         else if even f then f
         else f + 1)"

definition double :: "real \<Rightarrow> real" where
  "double x =
     (if x = 0 then 0
      else
        (let e = \<lfloor>log 2 \<bar>x\<bar>\<rfloor> - 52
         in of_int (round_half_even (x * 2 powr (- of_int e))) * 2 powr (of_int e)))"

text \<open>Python's \<^verbatim>\<open>int(x)\<close> on a float truncates towards zero.\<close>

definition py_int :: "real \<Rightarrow> int" where
  "py_int x = (if 0 \<le> x then \<lfloor>x\<rfloor> else \<lceil>x\<rceil>)"

text \<open>
  \<^verbatim>\<open>xs[i]\<close> on a one-dimensional array: a negative index counts from the end, an index
  outside the array raises \<^verbatim>\<open>IndexError\<close>.
\<close>

definition py_getitem :: "'a list \<Rightarrow> int \<Rightarrow> error + 'a" where
  "py_getitem xs i =
     (if 0 \<le> i \<and> i < int (length xs) then Inr (xs ! nat i)
      else if i < 0 \<and> - int (length xs) \<le> i then Inr (xs ! nat (int (length xs) + i))
      else Inl IndexError)"

text \<open>
  \<^verbatim>\<open>xs[start:finish]\<close>: negative bounds count from the end, and both bounds are clamped to
  the array, so a slice never raises.
\<close>

definition py_clamp :: "nat \<Rightarrow> int \<Rightarrow> nat" where
  "py_clamp n i = (if i < 0 then nat (int n + i) else min n (nat i))"

definition py_slice :: "'a list \<Rightarrow> int \<Rightarrow> int \<Rightarrow> 'a list" where
  "py_slice xs start finish =
     drop (py_clamp (length xs) start) (take (py_clamp (length xs) finish) xs)"

text \<open>
  \<^verbatim>\<open>np.arange(start, stop, step)\<close> on floats, as NumPy computes it. The length is
  \<open>ceil((stop - start) / step)\<close> (none when that is not positive), the subtraction and the
  division each rounded. The first element is \<open>start\<close>, the second \<open>next = start + step\<close>;
  the fill loop takes \<open>delta = next - start\<close> and stores \<open>start + i * delta\<close> at every
  further index \<open>i\<close>, the product and the sum each rounded. A zero step raises (a
  \<^verbatim>\<open>ZeroDivisionError\<close> on Python floats, a \<^verbatim>\<open>ValueError\<close> on NumPy scalars); the model
  has one error for both.
\<close>

definition arange_item :: "(real \<Rightarrow> real) \<Rightarrow> real \<Rightarrow> real \<Rightarrow> nat \<Rightarrow> real" where
  "arange_item fl start step i =
     (let next = fl (start + step);
          delta = fl (next - start)
      in if i = 0 then start
         else if i = 1 then next
         else fl (start + fl (real i * delta)))"

definition np_arange :: "(real \<Rightarrow> real) \<Rightarrow> real \<Rightarrow> real \<Rightarrow> real \<Rightarrow> error + real list" where
  "np_arange fl start stop step =
     (if step = 0 then Inl ZeroStepError
      else Inr (map (arange_item fl start step)
                  [0..<nat \<lceil>fl (fl (stop - start) / step)\<rceil>]))"

text \<open>
  A list comprehension, a loop that appends one result per element, and
  \<^verbatim>\<open>pool.map(f, xs)\<close> all apply \<open>f\<close> to every element and gather the results in order;
  an exception (in a worker: raised again in the caller) ends the evaluation, and no list is
  returned.
\<close>

fun py_map :: "('a \<Rightarrow> error + 'b) \<Rightarrow> 'a list \<Rightarrow> error + 'b list" where
  "py_map f [] = Inr []"
| "py_map f (x # xs) =
     (case f x of
        Inl e \<Rightarrow> Inl e
      | Inr y \<Rightarrow> (case py_map f xs of Inl e \<Rightarrow> Inl e | Inr ys \<Rightarrow> Inr (y # ys)))"

section \<open>The yield curve\<close>

text \<open>
  A fitted \<^verbatim>\<open>CubicSpline\<close> is used through two operations only: the call
  \<^verbatim>\<open>yield_curve(t)\<close> and the first derivative \<^verbatim>\<open>yield_curve.derivative(nu=1)(t)\<close>.
\<close>

record yield_curve =
  curve_value :: "real \<Rightarrow> real"
  curve_derivative :: "real \<Rightarrow> real"

text \<open>
  \<^verbatim>\<open>scipy.interpolate.CubicSpline(x, y)\<close> is a library class outside the repository. Its
  constructor validates its input as the library documents: \<open>x\<close> must have at least two
  elements, as many as \<open>y\<close>, and must be strictly increasing (\<^verbatim>\<open>np.any(np.diff(x) <= 0)\<close>
  is refused); each violation raises \<^verbatim>\<open>ValueError\<close>. The numerical fit itself is the
  parameter \<open>fit\<close>.
\<close>

definition np_diff :: "real list \<Rightarrow> real list" where
  "np_diff xs = map (\<lambda>(x, y). y - x) (zip xs (tl xs))"

definition CubicSpline ::
  "(real list \<Rightarrow> real list \<Rightarrow> yield_curve) \<Rightarrow> real list \<Rightarrow> real list \<Rightarrow> error + yield_curve" where
  "CubicSpline fit x y =
     (if length x < 2 then Inl ValueError
      else if length x \<noteq> length y then Inl ValueError
      else if list_ex (\<lambda>d. d \<le> 0) (np_diff x) then Inl ValueError
      else Inr (fit x y))"

definition create_yield_curve ::
  "(real list \<Rightarrow> real list \<Rightarrow> yield_curve) \<Rightarrow> (real \<times> real) list \<Rightarrow> error + yield_curve" where
  "create_yield_curve fit pts =
     (let durations = map fst pts;
          yields = map snd pts
      in CubicSpline fit durations yields)"

section \<open>Short-rate simulation\<close>

text \<open>
  The drift \<^verbatim>\<open>theta\<close> that \<^verbatim>\<open>simulate_path\<close> binds locally. With Python floats,
  \<^verbatim>\<open>(sigma**2)/(2*a)\<close> raises \<^verbatim>\<open>ZeroDivisionError\<close> when \<open>a\<close> is zero.
\<close>

definition theta :: "real \<Rightarrow> real \<Rightarrow> yield_curve \<Rightarrow> real \<Rightarrow> error + real" where
  "theta a sigma yc t =
     (if 2 * a = 0 then Inl ZeroDivisionError
      else Inr (curve_derivative yc t + (a * curve_value yc t)
                + ((sigma ^ 2) / (2 * a)) * (1 - exp (- 2 * a * t))))"

text \<open>
  The body of \<^verbatim>\<open>for t in range(1, steps)\<close>, over the remaining loop indices and the two
  arrays \<open>dr\<close> and \<open>r\<close>. \<open>r[t-1]\<close> and the two stores at \<open>t\<close> are inside the arrays, both of
  length \<open>steps\<close>; \<open>Z[t]\<close> is checked, since \<open>Z\<close> comes with the parameters.
\<close>

fun simulate_loop ::
  "real list \<Rightarrow> real \<Rightarrow> real \<Rightarrow> real \<Rightarrow> yield_curve \<Rightarrow> nat list \<Rightarrow> real list \<times> real list
     \<Rightarrow> error + real list \<times> real list" where
  "simulate_loop Z dt a sigma yc [] (dr, r) = Inr (dr, r)"
| "simulate_loop Z dt a sigma yc (t # ts) (dr, r) =
     (case theta a sigma yc (real t * dt) of
        Inl e \<Rightarrow> Inl e
      | Inr th \<Rightarrow>
          (case py_getitem Z (int t) of
             Inl e \<Rightarrow> Inl e
           | Inr z \<Rightarrow>
               (let dr' = dr[t := (th - a * r ! (t - 1)) * dt + sigma * sqrt dt * z];
                    r' = r[t := r ! (t - 1) + dr' ! t]
                in simulate_loop Z dt a sigma yc ts (dr', r'))))"

text \<open>
  \<^verbatim>\<open>simulate_path(params)\<close>. The tuple carries the caller's \<open>theta\<close>, which the function
  replaces by its own drift before the first use. \<^verbatim>\<open>np.zeros(steps)\<close> raises
  \<^verbatim>\<open>ValueError\<close> on a negative size, and \<^verbatim>\<open>r[0] = r0\<close> raises \<^verbatim>\<open>IndexError\<close> on an
  empty array.

  \<^verbatim>\<open>np.sqrt(dt)\<close> is the real square root for \<open>dt \<ge> 0\<close>. For \<open>dt < 0\<close> it is NaN and
  raises nothing, and every entry the loop stores is NaN: the loop still runs, so that an
  exception keeps its place, and a path with such an entry is \<open>NotANumber\<close>.
\<close>

fun simulate_path ::
  "int \<times> real list \<times> int \<times> real \<times> real \<times> real \<times> real \<times> (real \<Rightarrow> real) \<times> yield_curve
     \<Rightarrow> error + real list" where
  "simulate_path (i, Z, steps, dt, r0, a, sigma, theta_param, yc) =
     (if steps < 0 then Inl ValueError
      else
        (let dr = replicate (nat steps) (0 :: real);
             r = replicate (nat steps) (0 :: real)
         in if nat steps = 0 then Inl IndexError
            else
              (case simulate_loop Z dt a sigma yc [1..<nat steps] (dr, r[0 := r0]) of
                 Inl e \<Rightarrow> Inl e
               | Inr (dr', r') \<Rightarrow>
                   if dt < 0 \<and> 1 < nat steps then Inl NotANumber else Inr r')))"

text \<open>
  The shock matrix of \<^verbatim>\<open>get_short_rates\<close>. \<open>rng i j\<close> is the variate that
  \<^verbatim>\<open>np.random.normal\<close> puts in row \<open>i\<close>, column \<open>j\<close>: the random source is an input of
  the model. A negative dimension raises \<^verbatim>\<open>ValueError\<close>. \<^verbatim>\<open>int(simulations/2)\<close> is a
  float division followed by a truncation.
\<close>

definition random_normal :: "(nat \<Rightarrow> nat \<Rightarrow> real) \<Rightarrow> int \<Rightarrow> int \<Rightarrow> error + real list list" where
  "random_normal rng rows cols =
     (if rows < 0 \<or> cols < 0 then Inl ValueError
      else Inr (map (\<lambda>i. map (\<lambda>j. rng i j) [0..<nat cols]) [0..<nat rows]))"

definition shock_matrix :: "(nat \<Rightarrow> nat \<Rightarrow> real) \<Rightarrow> int \<Rightarrow> int \<Rightarrow> error + real list list" where
  "shock_matrix rng simulations steps =
     (case random_normal rng (py_int (real_of_int simulations / 2)) steps of
        Inl e \<Rightarrow> Inl e
      | Inr random_part_1 \<Rightarrow>
          (let random_part_2 = map (map uminus) random_part_1
           in Inr (random_part_1 @ random_part_2)))"

text \<open>
  \<^verbatim>\<open>get_short_rates\<close>: the parameter tuples read row \<open>i\<close> of the shock matrix for every
  \<open>i\<close> in \<^verbatim>\<open>range(simulations)\<close>, then the pool simulates one path per tuple.
\<close>

definition simulation_params ::
  "real list list \<Rightarrow> int \<Rightarrow> int \<Rightarrow> real \<Rightarrow> real \<Rightarrow> real \<Rightarrow> real \<Rightarrow> (real \<Rightarrow> real) \<Rightarrow> yield_curve
     \<Rightarrow> error + (int \<times> real list \<times> int \<times> real \<times> real \<times> real \<times> real \<times> (real \<Rightarrow> real) \<times> yield_curve) list" where
  "simulation_params random_z simulations steps dt r0 a sigma theta_param yc =
     py_map
       (\<lambda>i. case py_getitem random_z (int i) of
               Inl e \<Rightarrow> Inl e
             | Inr Z \<Rightarrow> Inr (int i, Z, steps, dt, r0, a, sigma, theta_param, yc))
       [0..<nat simulations]"

definition get_short_rates ::
  "(nat \<Rightarrow> nat \<Rightarrow> real) \<Rightarrow> int \<Rightarrow> int \<Rightarrow> real \<Rightarrow> real \<Rightarrow> real \<Rightarrow> real \<Rightarrow> (real \<Rightarrow> real) \<Rightarrow> yield_curve
     \<Rightarrow> error + real list list" where
  "get_short_rates rng simulations steps dt r0 a sigma theta_param yc =
     (case shock_matrix rng simulations steps of
        Inl e \<Rightarrow> Inl e
      | Inr random_z \<Rightarrow>
          (case simulation_params random_z simulations steps dt r0 a sigma theta_param yc of
             Inl e \<Rightarrow> Inl e
           | Inr params \<Rightarrow> py_map simulate_path params))"

section \<open>Forward rates\<close>

text \<open>
  The inner loop of \<^verbatim>\<open>get_forward_rates\<close> for one value of \<open>simulation\<close>: one Riemann
  sum per element of \<^verbatim>\<open>np.arange(0.0, T_m, tenor)\<close>. The sum \<open>t + tenor\<close> and the two
  products with \<open>months_per_year\<close> are rounded before \<^verbatim>\<open>int\<close> truncates them. The row of
  the path matrix is read inside the loop, so a missing row raises only when there is a
  period to sum.
\<close>

definition forward_rates_temp ::
  "(real \<Rightarrow> real) \<Rightarrow> real \<Rightarrow> real \<Rightarrow> real \<Rightarrow> real \<Rightarrow> real list list \<Rightarrow> nat
     \<Rightarrow> error + real list" where
  "forward_rates_temp fl months_per_year dt T_m tenor short_rate_paths simulation =
     (case np_arange fl 0 T_m tenor of
        Inl e \<Rightarrow> Inl e
      | Inr ts \<Rightarrow>
          py_map
            (\<lambda>t. let start_id = py_int (fl (months_per_year * t));
                     finish_id = py_int (fl (months_per_year * fl (t + tenor)))
                 in case py_getitem short_rate_paths (int simulation) of
                      Inl e \<Rightarrow> Inl e
                    | Inr path \<Rightarrow>
                        Inr (sum_list (map (\<lambda>x. x * dt) (py_slice path start_id finish_id))))
            ts)"

definition get_forward_rates ::
  "(real \<Rightarrow> real) \<Rightarrow> int \<Rightarrow> real \<Rightarrow> real \<Rightarrow> real \<Rightarrow> real \<Rightarrow> real list list
     \<Rightarrow> error + real list list" where
  "get_forward_rates fl simulations months_per_year dt T_m tenor short_rate_paths =
     py_map (forward_rates_temp fl months_per_year dt T_m tenor short_rate_paths)
       [0..<nat simulations]"

section \<open>Bond and swap valuation\<close>

text \<open>
  The nested functions \<^verbatim>\<open>B\<close>, \<^verbatim>\<open>A\<close> and \<^verbatim>\<open>P\<close> of \<^verbatim>\<open>sim_swap_eval\<close>.
  \<^verbatim>\<open>1/a\<close> raises \<^verbatim>\<open>ZeroDivisionError\<close> when \<open>a\<close> is zero; the divisions of NumPy
  values (\<^verbatim>\<open>P_0_t/P_0_s\<close>) do not raise.
\<close>

definition B :: "real \<Rightarrow> real \<Rightarrow> real \<Rightarrow> error + real" where
  "B s t a =
     (if a = 0 then Inl ZeroDivisionError
      else Inr (1 / a * (1 - exp (a * (s - t)))))"

definition A :: "real \<Rightarrow> real \<Rightarrow> real \<Rightarrow> real \<Rightarrow> yield_curve \<Rightarrow> error + real" where
  "A s t a sigma yc =
     (let P_0_t = exp (- curve_value yc t * t);
          P_0_s = exp (- curve_value yc s * s);
          term1 = P_0_t / P_0_s
      in case B s t a of
           Inl e \<Rightarrow> Inl e
         | Inr b \<Rightarrow>
             (let term2 = b * curve_value yc s
              in if 4 * a = 0 then Inl ZeroDivisionError
                 else
                   (case B s t a of
                      Inl e \<Rightarrow> Inl e
                    | Inr b' \<Rightarrow>
                        (let term3 = (sigma ^ 2 / (4 * a)) * b' ^ 2 * (1 - exp (- 2 * a * s))
                         in Inr (term1 * exp (term2 - term3))))))"

definition P :: "real \<Rightarrow> real \<Rightarrow> real \<Rightarrow> real \<Rightarrow> real \<Rightarrow> yield_curve \<Rightarrow> error + real" where
  "P s t r_s a sigma yc =
     (case A s t a sigma yc of
        Inl e \<Rightarrow> Inl e
      | Inr av \<Rightarrow>
          (case B s t a of
             Inl e \<Rightarrow> Inl e
           | Inr b \<Rightarrow> Inr (av * exp (- b * r_s))))"

text \<open>
  The loop of \<^verbatim>\<open>V\<close> over the payment dates, with the accumulator \<open>term3\<close>. Every
  iteration reads \<^verbatim>\<open>rates[int(months_per_year*t)]\<close> again; the product is rounded.
\<close>

fun V_loop ::
  "(real \<Rightarrow> real) \<Rightarrow> real \<Rightarrow> real \<Rightarrow> real \<Rightarrow> real list \<Rightarrow> real \<Rightarrow> real \<Rightarrow> yield_curve
     \<Rightarrow> real list \<Rightarrow> real \<Rightarrow> error + real" where
  "V_loop fl months_per_year t tenor rates a sigma yc [] term3 = Inr term3"
| "V_loop fl months_per_year t tenor rates a sigma yc (T_i # Ts) term3 =
     (case py_getitem rates (py_int (fl (months_per_year * t))) of
        Inl e \<Rightarrow> Inl e
      | Inr r \<Rightarrow>
          (case P t T_i r a sigma yc of
             Inl e \<Rightarrow> Inl e
           | Inr p \<Rightarrow>
               V_loop fl months_per_year t tenor rates a sigma yc Ts (term3 + p * tenor)))"

text \<open>
  \<^verbatim>\<open>V\<close>. The payment dates are \<^verbatim>\<open>np.arange(T_0+tenor, T_m+tenor, tenor)\<close>, with both
  sums rounded.
\<close>

definition V ::
  "(real \<Rightarrow> real) \<Rightarrow> real \<Rightarrow> real \<Rightarrow> real \<Rightarrow> real \<Rightarrow> real \<Rightarrow> real \<Rightarrow> real \<Rightarrow> real list \<Rightarrow> real
     \<Rightarrow> real \<Rightarrow> yield_curve \<Rightarrow> error + real" where
  "V fl months_per_year t T_0 T_m N fixed_rate tenor rates a sigma yc =
     (case py_getitem rates (py_int (fl (months_per_year * t))) of
        Inl e \<Rightarrow> Inl e
      | Inr r1 \<Rightarrow>
     (case P t T_0 r1 a sigma yc of
        Inl e \<Rightarrow> Inl e
      | Inr term1 \<Rightarrow>
     (case py_getitem rates (py_int (fl (months_per_year * t))) of
        Inl e \<Rightarrow> Inl e
      | Inr r2 \<Rightarrow>
     (case P t T_m r2 a sigma yc of
        Inl e \<Rightarrow> Inl e
      | Inr term2 \<Rightarrow>
     (case np_arange fl (fl (T_0 + tenor)) (fl (T_m + tenor)) tenor of
        Inl e \<Rightarrow> Inl e
      | Inr dates \<Rightarrow>
     (case V_loop fl months_per_year t tenor rates a sigma yc dates 0 of
        Inl e \<Rightarrow> Inl e
      | Inr term3 \<Rightarrow> Inr (- N * (term1 - term2 - fixed_rate * term3))))))))"

text \<open>
  \<^verbatim>\<open>sim_swap_eval(params)\<close>: one swap value per candidate exercise time of
  \<^verbatim>\<open>np.arange(tenor, T_m, tenor)\<close>, each with \<open>T_0 = t\<close>.
\<close>

fun sim_swap_eval ::
  "(real \<Rightarrow> real)
     \<Rightarrow> int \<times> real \<times> real \<times> real \<times> real \<times> real \<times> real list \<times> yield_curve \<times> real \<times> real
     \<Rightarrow> error + real list" where
  "sim_swap_eval fl
       (i, months_per_year, T_m, tenor, N, fixed_rate, short_rate_path, yc, a, sigma) =
     (case np_arange fl tenor T_m tenor of
        Inl e \<Rightarrow> Inl e
      | Inr ts \<Rightarrow>
          py_map
            (\<lambda>t. V fl months_per_year t t T_m N fixed_rate tenor short_rate_path a sigma yc)
            ts)"

definition get_simulations_swap_values ::
  "(real \<Rightarrow> real) \<Rightarrow> int \<Rightarrow> real \<Rightarrow> real \<Rightarrow> real \<Rightarrow> real \<Rightarrow> real \<Rightarrow> real list list \<Rightarrow> yield_curve
     \<Rightarrow> real \<Rightarrow> real \<Rightarrow> error + real list list" where
  "get_simulations_swap_values fl simulations months_per_year T_m tenor N fixed_rate
       short_rate_paths yc a sigma =
     (case py_map
             (\<lambda>i. case py_getitem short_rate_paths (int i) of
                     Inl e \<Rightarrow> Inl e
                   | Inr path \<Rightarrow>
                       Inr (int i, months_per_year, T_m, tenor, N, fixed_rate, path, yc, a, sigma))
             [0..<nat simulations] of
        Inl e \<Rightarrow> Inl e
      | Inr params \<Rightarrow> py_map (sim_swap_eval fl) params)"

section \<open>The European Monte Carlo estimator\<close>

text \<open>
  \<^verbatim>\<open>price_european_MC(swap_values, T_n, forward_rates)\<close>. The row of \<open>forward_rates\<close> is
  read only for a positive swap value; the final division by \<^verbatim>\<open>len(swap_values)\<close> raises
  \<^verbatim>\<open>ZeroDivisionError\<close> on an empty ensemble.
\<close>

definition positive_swap :: "real list \<Rightarrow> real \<Rightarrow> real list list \<Rightarrow> nat \<Rightarrow> error + real" where
  "positive_swap swap_values T_n forward_rates i =
     (if swap_values ! i > 0 then
        (case py_getitem forward_rates (int i) of
           Inl e \<Rightarrow> Inl e
         | Inr row \<Rightarrow>
             (let disc_rate = sum_list (py_slice row 0 (py_int T_n + 1))
              in Inr (swap_values ! i * exp (- disc_rate))))
      else Inr 0)"

definition price_european_MC :: "real list \<Rightarrow> real \<Rightarrow> real list list \<Rightarrow> error + real" where
  "price_european_MC swap_values T_n forward_rates =
     (case py_map (positive_swap swap_values T_n forward_rates) [0..<length swap_values] of
        Inl e \<Rightarrow> Inl e
      | Inr positive_swaps \<Rightarrow>
          (if length swap_values = 0 then Inl ZeroDivisionError
           else Inr (sum_list positive_swaps / real (length swap_values))))"

text \<open>
  The pricing step of the notebook's last cell: column 0 of the swap-value matrix
  (\<^verbatim>\<open>[:,0]\<close>, the value at the first exercise time \<open>tenor\<close>) goes to the estimator, and
  the argument passed for \<open>T_n\<close> is \<open>tenor\<close>. The column index raises \<^verbatim>\<open>IndexError\<close> on
  an array without rows or without columns.
\<close>

definition sim_value :: "real list list \<Rightarrow> real \<Rightarrow> real list list \<Rightarrow> error + real" where
  "sim_value swap_matrix tenor forward_rate_normal =
     (if swap_matrix = [] then Inl IndexError
      else
        (case py_map (\<lambda>row. py_getitem row 0) swap_matrix of
           Inl e \<Rightarrow> Inl e
         | Inr swap_values \<Rightarrow> price_european_MC swap_values tenor forward_rate_normal))"

section \<open>Example inputs\<close>

text \<open>
  The notebook's flat curve: the spline through four points of yield 0.04 is the constant
  0.04, with derivative zero. \<open>zero_curve\<close> is the flat curve of yield zero, \<open>index_rng\<close> a
  random source with distinct, non-zero variates, \<open>zero_theta\<close> a drift argument for the
  caller to pass, and \<open>const_fit\<close> a fit that returns the flat curve.
\<close>

definition flat_curve :: yield_curve where
  "flat_curve = \<lparr>curve_value = (\<lambda>t. 4 / 100), curve_derivative = (\<lambda>t. 0)\<rparr>"

definition zero_curve :: yield_curve where
  "zero_curve = \<lparr>curve_value = (\<lambda>t. 0), curve_derivative = (\<lambda>t. 0)\<rparr>"

definition index_rng :: "nat \<Rightarrow> nat \<Rightarrow> real" where
  "index_rng i j = real (i + j) + 1"

definition zero_theta :: "real \<Rightarrow> real" where
  "zero_theta t = 0"

definition const_fit :: "real list \<Rightarrow> real list \<Rightarrow> yield_curve" where
  "const_fit x y = flat_curve"

text \<open>Replacing the \<open>theta\<close> component of a parameter tuple of \<open>simulate_path\<close>.\<close>

fun set_theta ::
  "(real \<Rightarrow> real)
     \<Rightarrow> int \<times> real list \<times> int \<times> real \<times> real \<times> real \<times> real \<times> (real \<Rightarrow> real) \<times> yield_curve
     \<Rightarrow> int \<times> real list \<times> int \<times> real \<times> real \<times> real \<times> real \<times> (real \<Rightarrow> real) \<times> yield_curve" where
  "set_theta th (i, Z, steps, dt, r0, a, sigma, theta_param, yc) =
     (i, Z, steps, dt, r0, a, sigma, th, yc)"

text \<open>The number \<open>P\<close> computes when \<open>a\<close> is not zero, as one expression.\<close>

definition bond_value :: "real \<Rightarrow> real \<Rightarrow> real \<Rightarrow> real \<Rightarrow> real \<Rightarrow> yield_curve \<Rightarrow> real" where
  "bond_value s t r_s a sigma yc =
     (exp (- curve_value yc t * t) / exp (- curve_value yc s * s))
       * exp ((1 / a * (1 - exp (a * (s - t)))) * curve_value yc s
              - (sigma ^ 2 / (4 * a)) * (1 / a * (1 - exp (a * (s - t)))) ^ 2
                  * (1 - exp (- 2 * a * s)))
       * exp (- (1 / a * (1 - exp (a * (s - t)))) * r_s)"

section \<open>Lemmas on the primitives\<close>

lemma py_getitem_nat: "k < length xs \<Longrightarrow> py_getitem xs (int k) = Inr (xs ! k)"
  by (simp add: py_getitem_def)

lemma py_map_map_sum:
  "py_map (\<lambda>x. map_sum id h (g x)) xs = map_sum id (map h) (py_map g xs)"
  by (induction xs) (auto split: sum.splits)

lemma py_map_map: "py_map f (map h xs) = py_map (\<lambda>x. f (h x)) xs"
  by (induction xs) (auto split: sum.splits)

lemma py_int_half: "0 \<le> s \<Longrightarrow> py_int (real_of_int s / 2) = s div 2"
  using floor_divide_of_int_eq [of s 2, where ?'a = real] by (simp add: py_int_def)

lemma py_int_nonneg: "0 \<le> x \<Longrightarrow> py_int x = \<lfloor>x\<rfloor>"
  by (simp add: py_int_def)

lemma py_map_Inr: "(\<And>x. x \<in> set xs \<Longrightarrow> f x = Inr (g x)) \<Longrightarrow> py_map f xs = Inr (map g xs)"
  by (induction xs) auto

lemma py_map_append_Inl:
  "(\<And>y. y \<in> set ys \<Longrightarrow> f y = Inr (g y)) \<Longrightarrow> f x = Inl e \<Longrightarrow> py_map f (ys @ x # zs) = Inl e"
  by (induction ys) auto

lemma sum_list_drop_take:
  "sum_list (map f (drop a (take b xs))) = (\<Sum>k = a..<min b (length xs). f (xs ! k))"
proof -
  have "take b [0..<length xs] = [0..<min b (length xs)]"
    by (cases "b \<le> length xs") (simp_all add: min_absorb1 min_absorb2)
  then have "drop a (take b (map ((!) xs) [0..<length xs]))
               = map ((!) xs) [a..<min b (length xs)]"
    by (simp only: take_map drop_map drop_upt add_0)
  then have "drop a (take b xs) = map ((!) xs) [a..<min b (length xs)]"
    by (simp only: map_nth)
  then show ?thesis
    by (simp add: interv_sum_list_conv_sum_set_nat comp_def)
qed

lemma sum_list_py_slice:
  assumes "0 \<le> lo" and "0 \<le> hi"
  shows "sum_list (map f (py_slice xs lo hi))
           = (\<Sum>k = nat lo..<min (nat hi) (length xs). f (xs ! k))"
proof (cases "nat lo \<le> length xs")
  case True
  with assms show ?thesis
    by (simp add: py_slice_def py_clamp_def sum_list_drop_take min.commute min_absorb2)
next
  case False
  with assms show ?thesis
    by (simp add: py_slice_def py_clamp_def sum_list_drop_take)
qed

lemma arange_item_exact: "arange_item exact start step i = start + real i * step"
  by (simp add: arange_item_def exact_def Let_def algebra_simps)

lemma np_arange_exact:
  "step \<noteq> 0 \<Longrightarrow>
     np_arange exact start stop step
       = Inr (map (\<lambda>i. start + real i * step) [0..<nat \<lceil>(stop - start) / step\<rceil>])"
  by (simp add: np_arange_def arange_item_exact [abs_def]) (simp add: exact_def)

lemma arange_index_iff:
  assumes "0 < step"
  shows "i < nat \<lceil>stop / step\<rceil> \<longleftrightarrow> real i * step < stop"
  using assms by (simp add: zless_nat_eq_int_zless less_ceiling_iff pos_less_divide_eq)

lemma arange_item_nonneg:
  assumes "\<And>x. 0 \<le> x \<Longrightarrow> 0 \<le> fl x" and "0 \<le> step"
  shows "0 \<le> arange_item fl 0 step i"
proof -
  have "0 \<le> fl step" using assms by simp
  then have "0 \<le> fl (fl step)" using assms(1) by simp
  then have "0 \<le> fl (real i * fl (fl step))" using assms(1) by simp
  then have "0 \<le> fl (fl (real i * fl (fl step)))" using assms(1) by simp
  with \<open>0 \<le> fl step\<close> show ?thesis
    by (simp add: arange_item_def Let_def)
qed


section \<open>Lemmas on the roundings\<close>

text \<open>
  \<open>double x\<close> is computed from a scaling \<open>2\<^sup>k\<close> that brings \<open>|x|\<close> into \<open>[2\<^sup>5\<^sup>2, 2\<^sup>5\<^sup>3)\<close>. The
  facts \<open>double_at\<close> are the roundings that the examples below need.
\<close>

lemma round_half_even_of_int: "round_half_even (of_int m) = m"
  by (simp add: round_half_even_def)

lemma round_half_even_nonneg: "0 \<le> x \<Longrightarrow> 0 \<le> round_half_even x"
  by (auto simp: round_half_even_def Let_def)

lemma double_eqI:
  assumes "2 ^ 52 \<le> \<bar>x\<bar> * 2 ^ k" and "\<bar>x\<bar> * 2 ^ k < 2 ^ 53"
  shows "double x = of_int (round_half_even (x * 2 ^ k)) / 2 ^ k"
proof -
  have pos: "0 < \<bar>x\<bar>" using assms(1) by (cases "x = 0") auto
  have "log 2 (\<bar>x\<bar> * 2 ^ k) = log 2 \<bar>x\<bar> + real k"
    using pos by (simp add: log_mult log_nat_power)
  moreover have "52 \<le> log 2 (\<bar>x\<bar> * 2 ^ k)"
    using assms(1) pos by (simp add: le_log_iff powr_realpow [symmetric])
  moreover have "log 2 (\<bar>x\<bar> * 2 ^ k) < 53"
    using assms(2) pos by (simp add: log_less_iff powr_realpow [symmetric])
  ultimately have "\<lfloor>log 2 \<bar>x\<bar>\<rfloor> = 52 - int k"
    by (intro floor_unique) simp_all
  then have e: "\<lfloor>log 2 \<bar>x\<bar>\<rfloor> - 52 = - int k" by simp
  have "x \<noteq> 0" using pos by simp
  then show ?thesis
    unfolding double_def e
    by (simp add: Let_def powr_realpow powr_minus field_simps)
qed

lemma double_exactI:
  assumes "2 ^ 52 \<le> \<bar>x\<bar> * 2 ^ k" and "\<bar>x\<bar> * 2 ^ k < 2 ^ 53" and "x * 2 ^ k = of_int m"
  shows "double x = x"
proof -
  have "double x = of_int m / 2 ^ k"
    using double_eqI [OF assms(1,2)] by (simp add: assms(3) round_half_even_of_int)
  also have "\<dots> = x" using assms(3) [symmetric] by simp
  finally show ?thesis .
qed

lemma double_nonneg: "0 \<le> x \<Longrightarrow> 0 \<le> double x"
  by (simp add: double_def Let_def round_half_even_nonneg)

lemma double_zero: "double 0 = 0"
  by (simp add: double_def)

lemma double_at_1: "double (1 / 10) = 3602879701896397 / 36028797018963968"
  by (simp add: double_eqI [where k = 56] round_half_even_def)

lemma double_at_2: "double (1 / 5) = 3602879701896397 / 18014398509481984"
  by (simp add: double_eqI [where k = 55] round_half_even_def)

lemma double_at_3: "double (3602879701896397 / 36028797018963968) = 3602879701896397 / 36028797018963968"
  by (rule double_exactI [where k = 56 and m = "7205759403792794"]) simp_all

lemma double_at_4: "double (1) = 1"
  by (rule double_exactI [where k = 52 and m = "4503599627370496"]) simp_all

lemma double_at_5: "double (3602879701896397 / 18014398509481984) = 3602879701896397 / 18014398509481984"
  by (rule double_exactI [where k = 55 and m = "7205759403792794"]) simp_all

lemma double_at_6: "double (18014398509481985 / 18014398509481984) = 1"
  by (simp add: double_eqI [where k = 52] round_half_even_def)

lemma double_at_7: "double (10808639105689191 / 36028797018963968) = 1351079888211149 / 4503599627370496"
  by (simp add: double_eqI [where k = 54] round_half_even_def)

lemma double_at_8: "double (1801439850948199 / 18014398509481984) = 1801439850948199 / 18014398509481984"
  by (rule double_exactI [where k = 56 and m = "7205759403792796"]) simp_all

lemma double_at_9: "double (3602879701896398 / 3602879701896397) = 4503599627370497 / 4503599627370496"
  by (simp add: double_eqI [where k = 52] round_half_even_def)

lemma double_at_10: "double (7 / 10) = 3152519739159347 / 4503599627370496"
  by (simp add: double_eqI [where k = 53] round_half_even_def)

lemma double_at_11: "double (14 / 5) = 3152519739159347 / 1125899906842624"
  by (simp add: double_eqI [where k = 51] round_half_even_def)

lemma double_at_12: "double (7 / 5) = 3152519739159347 / 2251799813685248"
  by (simp add: double_eqI [where k = 52] round_half_even_def)

lemma double_at_13: "double (3152519739159347 / 1125899906842624) = 3152519739159347 / 1125899906842624"
  by (rule double_exactI [where k = 51 and m = "6305039478318694"]) simp_all

lemma double_at_14: "double (4) = 4"
  by (rule double_exactI [where k = 50 and m = "4503599627370496"]) simp_all

lemma double_at_15: "double (3152519739159347 / 4503599627370496) = 3152519739159347 / 4503599627370496"
  by (rule double_exactI [where k = 53 and m = "6305039478318694"]) simp_all

lemma double_at_16: "double (3152519739159347 / 2251799813685248) = 3152519739159347 / 2251799813685248"
  by (rule double_exactI [where k = 52 and m = "6305039478318694"]) simp_all

lemma double_at_17: "double (9457559217478041 / 4503599627370496) = 1182194902184755 / 562949953421312"
  by (simp add: double_eqI [where k = 51] round_half_even_def)

lemma double_at_18: "double (1182194902184755 / 562949953421312) = 1182194902184755 / 562949953421312"
  by (rule double_exactI [where k = 51 and m = "4728779608739020"]) simp_all

lemma double_at_19: "double (15762598695796735 / 2251799813685248) = 7"
  by (simp add: double_eqI [where k = 50] round_half_even_def)

lemma double_at_20: "double (15762598695796735 / 1125899906842624) = 14"
  by (simp add: double_eqI [where k = 49] round_half_even_def)

lemma double_at_21: "double (5910974510923775 / 281474976710656) = 5910974510923775 / 281474976710656"
  by (rule double_exactI [where k = 48 and m = "5910974510923775"]) simp_all

lemma double_at_22: "double (12610078956637387 / 4503599627370496) = 3152519739159347 / 1125899906842624"
  by (simp add: double_eqI [where k = 51] round_half_even_def)

lemma double_at_23: "double (15762598695796735 / 562949953421312) = 28"
  by (simp add: double_eqI [where k = 48] round_half_even_def)

lemma double_at_24: "double (2) = 2"
  by (rule double_exactI [where k = 51 and m = "4503599627370496"]) simp_all

lemma double_at_25: "double (3) = 3"
  by (rule double_exactI [where k = 51 and m = "6755399441055744"]) simp_all

lemma double_at_26: "double (1 / 12) = 6004799503160661 / 72057594037927936"
  by (simp add: double_eqI [where k = 56] round_half_even_def)

lemma double_at_27: "double (1 / 2) = 1 / 2"
  by (rule double_exactI [where k = 53 and m = "4503599627370496"]) simp_all

lemma double_at_28: "double (36028797018963968 / 6004799503160661) = 6"
  by (simp add: double_eqI [where k = 50] round_half_even_def)

lemma double_at_29: "double (6004799503160661 / 72057594037927936) = 6004799503160661 / 72057594037927936"
  by (rule double_exactI [where k = 56 and m = "6004799503160661"]) simp_all

lemma double_at_30: "double (6004799503160661 / 36028797018963968) = 6004799503160661 / 36028797018963968"
  by (rule double_exactI [where k = 55 and m = "6004799503160661"]) simp_all

lemma double_at_31: "double (18014398509481983 / 72057594037927936) = 1 / 4"
  by (simp add: double_eqI [where k = 55] round_half_even_def)

lemma double_at_32: "double (1 / 4) = 1 / 4"
  by (rule double_exactI [where k = 54 and m = "4503599627370496"]) simp_all

lemma double_at_33: "double (6004799503160661 / 18014398509481984) = 6004799503160661 / 18014398509481984"
  by (rule double_exactI [where k = 54 and m = "6004799503160661"]) simp_all

lemma double_at_34: "double (30023997515803305 / 72057594037927936) = 3752999689475413 / 9007199254740992"
  by (simp add: double_eqI [where k = 54] round_half_even_def)

lemma double_at_35: "double (3752999689475413 / 9007199254740992) = 3752999689475413 / 9007199254740992"
  by (rule double_exactI [where k = 54 and m = "7505999378950826"]) simp_all

lemma double_at_36: "double (18014398509481983 / 18014398509481984) = 1"
  by (simp add: double_eqI [where k = 53] round_half_even_def)

lemma double_at_37: "double (18014398509481983 / 9007199254740992) = 2"
  by (simp add: double_eqI [where k = 52] round_half_even_def)

lemma double_at_38: "double (24019198012642645 / 72057594037927936) = 6004799503160661 / 18014398509481984"
  by (simp add: double_eqI [where k = 54] round_half_even_def)

lemma double_at_39: "double (18014398509481983 / 4503599627370496) = 4"
  by (simp add: double_eqI [where k = 51] round_half_even_def)

lemma double_at_40: "double (11258999068426239 / 2251799813685248) = 5"
  by (simp add: double_eqI [where k = 50] round_half_even_def)

lemma double_at_41: "double (36028797018963965 / 72057594037927936) = 9007199254740991 / 18014398509481984"
  by (simp add: double_eqI [where k = 54] round_half_even_def)

lemma double_at_42: "double (27021597764222973 / 4503599627370496) = 6755399441055743 / 1125899906842624"
  by (simp add: double_eqI [where k = 50] round_half_even_def)

lemmas double_at = double_zero double_at_1 double_at_2 double_at_3 double_at_4 double_at_5 double_at_6 double_at_7 double_at_8 double_at_9 double_at_10 double_at_11 double_at_12 double_at_13 double_at_14 double_at_15 double_at_16 double_at_17 double_at_18 double_at_19 double_at_20 double_at_21 double_at_22 double_at_23 double_at_24 double_at_25 double_at_26 double_at_27 double_at_28 double_at_29 double_at_30 double_at_31 double_at_32 double_at_33 double_at_34 double_at_35 double_at_36 double_at_37 double_at_38 double_at_39 double_at_40 double_at_41 double_at_42

lemma upt_2: "[0..<2] = [0, 1]" and upt_4: "[0..<4] = [0, 1, 2, 3]"
  and upt_6: "[0..<6] = [0, 1, 2, 3, 4, 5]"
  by (simp_all add: upt_rec)

section \<open>The Euler scheme of \<open>simulate_path\<close>\<close>

text \<open>
  The loop over \<open>[m..<n]\<close> keeps the entries below \<open>m\<close> and makes every entry from \<open>m\<close>
  on the Euler step of its predecessor. \<open>\<theta>\<close> is the value the local drift returns.
\<close>

lemma simulate_loop_upt:
  assumes th: "\<And>t. theta a sigma yc t = Inr (\<theta> t)"
    and "n \<le> length Z" and "length r = L" and "length dr = L" and "n \<le> L" and "1 \<le> m"
  shows "\<exists>dr' r'. simulate_loop Z dt a sigma yc [m..<n] (dr, r) = Inr (dr', r')
           \<and> length r' = L \<and> length dr' = L
           \<and> (\<forall>k<m. r' ! k = r ! k)
           \<and> (\<forall>k. m \<le> k \<and> k < n \<longrightarrow>
                 r' ! k = r' ! (k - 1) + ((\<theta> (real k * dt) - a * r' ! (k - 1)) * dt
                                          + sigma * sqrt dt * Z ! k))"
  using assms(2-)
proof (induction "n - m" arbitrary: m dr r)
  case 0
  then show ?case by simp
next
  case (Suc d)
  then have mn: "m < n" by simp
  define inc where "inc = (\<theta> (real m * dt) - a * r ! (m - 1)) * dt + sigma * sqrt dt * Z ! m"
  define dr1 where "dr1 = dr[m := inc]"
  define r1 where "r1 = r[m := r ! (m - 1) + inc]"
  have mL: "m < L" and mZ: "m < length Z" using mn Suc.prems by simp_all
  have step: "simulate_loop Z dt a sigma yc [m..<n] (dr, r)
                = simulate_loop Z dt a sigma yc [Suc m..<n] (dr1, r1)"
    using mn mL mZ Suc.prems
    by (simp add: upt_conv_Cons th py_getitem_nat dr1_def r1_def inc_def Let_def)
  have "d = n - Suc m" using Suc.hyps(2) by simp
  from Suc.hyps(1)[OF this, of r1 dr1] Suc.prems
  obtain dr' r' where res: "simulate_loop Z dt a sigma yc [Suc m..<n] (dr1, r1) = Inr (dr', r')"
    and len: "length r' = L" "length dr' = L"
    and keep: "\<forall>k<Suc m. r' ! k = r1 ! k"
    and rec: "\<forall>k. Suc m \<le> k \<and> k < n \<longrightarrow>
                 r' ! k = r' ! (k - 1) + ((\<theta> (real k * dt) - a * r' ! (k - 1)) * dt
                                          + sigma * sqrt dt * Z ! k)"
    by (auto simp: r1_def dr1_def)
  have old: "\<forall>k<m. r' ! k = r ! k"
    using keep by (simp add: r1_def)
  have "r' ! m = r ! (m - 1) + inc"
    using keep mL Suc.prems by (simp add: r1_def)
  moreover have "r' ! (m - 1) = r ! (m - 1)"
    using old Suc.prems by simp
  ultimately have atm: "r' ! m = r' ! (m - 1) + ((\<theta> (real m * dt) - a * r' ! (m - 1)) * dt
                                          + sigma * sqrt dt * Z ! m)"
    by (simp add: inc_def)
  have "\<forall>k. m \<le> k \<and> k < n \<longrightarrow>
                 r' ! k = r' ! (k - 1) + ((\<theta> (real k * dt) - a * r' ! (k - 1)) * dt
                                          + sigma * sqrt dt * Z ! k)"
  proof (intro allI impI)
    fix k assume "m \<le> k \<and> k < n"
    then consider "k = m" | "Suc m \<le> k \<and> k < n" by linarith
    then show "r' ! k = r' ! (k - 1) + ((\<theta> (real k * dt) - a * r' ! (k - 1)) * dt
                                          + sigma * sqrt dt * Z ! k)"
      using atm rec by cases auto
  qed
  with step res len old show ?case by simp
qed

text \<open>
  Claim C1. For \<open>a \<noteq> 0\<close>, at least one step, a step width \<open>dt \<ge> 0\<close> and a shock sequence
  with an entry for every step, \<open>simulate_path\<close> returns a path \<open>r\<close> of \<open>steps\<close> entries with \<open>r[0] = r0\<close> and, for
  every \<open>k\<close> from 1 to \<open>steps - 1\<close>,
  \<open>r[k] = r[k-1] + (\<theta>(k dt) - a r[k-1]) dt + \<sigma> \<surd>dt Z[k]\<close>, where
  \<open>\<theta>(t) = y'(t) + a y(t) + (\<sigma>\<^sup>2 / (2 a)) (1 - e\<^sup>-\<^sup>2\<^sup>a\<^sup>t)\<close>.
\<close>

theorem simulate_path_euler_scheme:
  assumes "a \<noteq> 0" and "1 \<le> steps" and "nat steps \<le> length Z" and "0 \<le> dt"
  shows "\<exists>r. simulate_path (i, Z, steps, dt, r0, a, sigma, theta_param, yc) = Inr r
           \<and> length r = nat steps
           \<and> r ! 0 = r0
           \<and> (\<forall>k. 1 \<le> k \<and> k < nat steps \<longrightarrow>
                 r ! k = r ! (k - 1)
                   + ((curve_derivative yc (real k * dt) + a * curve_value yc (real k * dt)
                        + (sigma ^ 2 / (2 * a)) * (1 - exp (- 2 * a * (real k * dt))))
                      - a * r ! (k - 1)) * dt
                   + sigma * sqrt dt * Z ! k)"
proof -
  define \<theta> where "\<theta> t = curve_derivative yc t + a * curve_value yc t
                        + (sigma ^ 2 / (2 * a)) * (1 - exp (- 2 * a * t))" for t
  define r_init where "r_init = (replicate (nat steps) (0 :: real))[0 := r0]"
  have th: "\<And>t. theta a sigma yc t = Inr (\<theta> t)"
    using assms(1) by (simp add: theta_def \<theta>_def)
  have "length r_init = nat steps" "length (replicate (nat steps) (0 :: real)) = nat steps"
    by (simp_all add: r_init_def)
  from simulate_loop_upt [OF th assms(3) this order_refl order_refl, of dt]
  obtain dr' r' where
    res: "simulate_loop Z dt a sigma yc [1..<nat steps] (replicate (nat steps) 0, r_init)
            = Inr (dr', r')"
    and len: "length r' = nat steps"
    and keep: "\<forall>k<1. r' ! k = r_init ! k"
    and rec: "\<forall>k. 1 \<le> k \<and> k < nat steps \<longrightarrow>
                r' ! k = r' ! (k - 1) + ((\<theta> (real k * dt) - a * r' ! (k - 1)) * dt
                                         + sigma * sqrt dt * Z ! k)"
    by blast
  have "simulate_path (i, Z, steps, dt, r0, a, sigma, theta_param, yc) = Inr r'"
    using assms(2,4) res by (simp add: r_init_def Let_def)
  moreover have "r' ! 0 = r0"
    using keep assms(2) by (simp add: r_init_def)
  ultimately show ?thesis
    using len rec by (auto simp: \<theta>_def)
qed

theorem simulate_path_euler_scheme_witness:
  "(1 :: real) \<noteq> 0 \<and> (1 :: int) \<le> 2 \<and> nat 2 \<le> length [0, 3 :: real] \<and> (0 :: real) \<le> 1
   \<and> (\<exists>r. simulate_path (0, [0, 3], 2, 1, 1, 1, 2, zero_theta, zero_curve) = Inr r
          \<and> length r = 2 \<and> r ! 0 = 1 \<and> r ! 1 = 8 - 2 * exp (- 2))"
proof -
  from simulate_path_euler_scheme
         [where a = 1 and steps = 2 and Z = "[0, 3]" and dt = 1 and i = 0 and ?r0.0 = 1
            and sigma = 2 and theta_param = zero_theta and yc = zero_curve]
  obtain r where
    "simulate_path (0, [0, 3], 2, 1, 1, 1, 2, zero_theta, zero_curve) = Inr r"
    "length r = 2" "r ! 0 = 1"
    "\<forall>k. 1 \<le> k \<and> k < nat 2 \<longrightarrow>
        r ! k = r ! (k - 1)
          + ((curve_derivative zero_curve (real k * 1) + 1 * curve_value zero_curve (real k * 1)
               + (2 ^ 2 / (2 * 1)) * (1 - exp (- 2 * 1 * (real k * 1))))
             - 1 * r ! (k - 1)) * 1
          + 2 * sqrt 1 * [0, 3] ! k"
    by auto
  moreover from this(4) [rule_format, of 1] this(3) have "r ! 1 = 8 - 2 * exp (- 2)"
    by (simp add: zero_curve_def)
  ultimately show ?thesis by auto
qed

section \<open>The affine bond price\<close>

text \<open>\<open>P\<close> returns \<open>bond_value\<close>, which is positive.\<close>

lemma P_bond_value: "a \<noteq> 0 \<Longrightarrow> P s t r_s a sigma yc = Inr (bond_value s t r_s a sigma yc)"
  by (simp add: P_def A_def B_def Let_def bond_value_def)


text \<open>
  Claim C2. For \<open>a \<noteq> 0\<close> the bond pricer returns \<open>A(s,t) exp(- B(s,t) r_s)\<close>, with
  \<open>B(s,t) = (1/a) (1 - e\<^sup>a\<^sup>(\<^sup>s\<^sup>-\<^sup>t\<^sup>))\<close>,
  \<open>A(s,t) = (P(0,t) / P(0,s)) exp(B(s,t) y(s) - (\<sigma>\<^sup>2 / (4 a)) B(s,t)\<^sup>2 (1 - e\<^sup>-\<^sup>2\<^sup>a\<^sup>s))\<close>
  and \<open>P(0,x) = e\<^sup>-\<^sup>y\<^sup>(\<^sup>x\<^sup>)\<^sup>x\<close>.
\<close>

theorem P_affine_formula:
  assumes "a \<noteq> 0"
  shows "P s t r_s a sigma yc =
     (let Bst = (1 / a) * (1 - exp (a * (s - t)));
          P0t = exp (- curve_value yc t * t);
          P0s = exp (- curve_value yc s * s);
          Ast = (P0t / P0s)
                 * exp (Bst * curve_value yc s
                        - (sigma ^ 2 / (4 * a)) * Bst ^ 2 * (1 - exp (- 2 * a * s)))
      in Inr (Ast * exp (- Bst * r_s)))"
  using assms by (simp add: P_def A_def B_def Let_def)

theorem P_affine_formula_witness:
  "(1 :: real) \<noteq> 0 \<and> P 0 0 (4 / 100) 1 (1 / 100) flat_curve = Inr 1"
  using P_affine_formula [of 1 0 0 "4 / 100" "1 / 100" flat_curve]
  by (simp add: flat_curve_def)

section \<open>The caller's drift is ignored\<close>

lemma simulate_path_set_theta: "simulate_path (set_theta th p) = simulate_path p"
  by (cases p rule: simulate_path.cases) simp

text \<open>
  Claim C10. With every other input equal, \<open>get_short_rates\<close> returns the same result for
  any two \<open>theta\<close> arguments: \<open>simulate_path\<close> rebuilds the drift from the yield curve, \<open>a\<close>
  and \<open>sigma\<close>.
\<close>

theorem get_short_rates_theta_independent:
  "get_short_rates rng simulations steps dt r0 a sigma theta1 yc
     = get_short_rates rng simulations steps dt r0 a sigma theta2 yc"
proof -
  have "simulation_params Z simulations steps dt r0 a sigma theta2 yc
          = map_sum id (map (set_theta theta2))
              (simulation_params Z simulations steps dt r0 a sigma theta1 yc)" for Z
    unfolding simulation_params_def py_map_map_sum [symmetric]
    by (rule arg_cong [where f = "\<lambda>f. py_map f _"]) (auto split: sum.splits)
  then show ?thesis
    unfolding get_short_rates_def
    by (auto split: sum.splits simp: py_map_map simulate_path_set_theta)
qed

section \<open>The shock matrix\<close>

text \<open>For non-negative sizes the shock matrix is the drawn half followed by its negation.\<close>

lemma shock_matrix_value:
  assumes "0 \<le> simulations" and "0 \<le> steps"
  shows "shock_matrix rng simulations steps =
           Inr (map (\<lambda>i. map (\<lambda>j. rng i j) [0..<nat steps]) [0..<nat (simulations div 2)]
                @ map (\<lambda>i. map (\<lambda>j. - rng i j) [0..<nat steps]) [0..<nat (simulations div 2)])"
proof -
  have "0 \<le> simulations div 2" using assms(1) by simp
  then show ?thesis
    using assms by (simp add: shock_matrix_def random_normal_def py_int_half comp_def)
qed

text \<open>
  Claim C5. For an even, non-negative number of simulations (and a non-negative step count)
  the shock matrix has one row of \<open>steps\<close> shocks per path, the row of path
  \<open>i + simulations/2\<close> is the exact negation of the row of path \<open>i\<close> for every \<open>i\<close> in the
  first half, and path \<open>i\<close> is simulated with row \<open>i\<close>.
\<close>

theorem shock_matrix_antithetic:
  assumes "even simulations" and "0 \<le> simulations" and "0 \<le> steps"
  shows "\<exists>Z. shock_matrix rng simulations steps = Inr Z
           \<and> length Z = nat simulations
           \<and> (\<forall>i. i < nat simulations div 2 \<longrightarrow>
                 length (Z ! i) = nat steps
                 \<and> Z ! (i + nat simulations div 2) = map uminus (Z ! i))
           \<and> simulation_params Z simulations steps dt r0 a sigma theta_param yc
               = Inr (map (\<lambda>i. (int i, Z ! i, steps, dt, r0, a, sigma, theta_param, yc))
                        [0..<nat simulations])"
proof -
  define h where "h = nat (simulations div 2)"
  define Z where "Z = map (\<lambda>i. map (\<lambda>j. rng i j) [0..<nat steps]) [0..<h]
                @ map (\<lambda>i. map (\<lambda>j. - rng i j) [0..<nat steps]) [0..<h]"
  from assms(1) obtain b where b: "simulations = 2 * b" by (elim evenE)
  with assms(2) have "nat simulations = 2 * nat b" "h = nat b"
    by (simp_all add: h_def nat_mult_distrib)
  then have hh: "nat simulations div 2 = h" "nat simulations = h + h"
    by simp_all
  have Z: "shock_matrix rng simulations steps = Inr Z"
    using shock_matrix_value [OF assms(2,3)] by (simp add: Z_def h_def)
  have len: "length Z = nat simulations" by (simp add: Z_def hh)
  have pair: "length (Z ! i) = nat steps \<and> Z ! (i + h) = map uminus (Z ! i)" if "i < h" for i
    using that by (simp add: Z_def nth_append comp_def)
  have "py_map (\<lambda>i. case py_getitem Z (int i) of Inl e \<Rightarrow> Inl e
                     | Inr Zi \<Rightarrow> Inr (int i, Zi, steps, dt, r0, a, sigma, theta_param, yc))
          [0..<nat simulations]
        = Inr (map (\<lambda>i. (int i, Z ! i, steps, dt, r0, a, sigma, theta_param, yc))
                 [0..<nat simulations])"
    by (rule py_map_Inr) (simp add: py_getitem_nat len)
  then show ?thesis
    using Z len pair by (auto simp: simulation_params_def hh)
qed

theorem shock_matrix_antithetic_witness:
  "even (2 :: int) \<and> (0 :: int) \<le> 2 \<and> (0 :: int) \<le> 1
   \<and> (\<exists>Z. shock_matrix index_rng 2 1 = Inr Z \<and> length Z = 2
            \<and> Z ! 1 = map uminus (Z ! 0))
   \<and> shock_matrix index_rng 2 1 = Inr [[1], [- 1]]"
proof -
  from shock_matrix_antithetic [of 2 1 index_rng 1 0 1 0 zero_theta zero_curve]
  obtain Z where Z: "shock_matrix index_rng 2 1 = Inr Z" "length Z = nat 2"
    and pair: "\<forall>i. i < nat 2 div 2 \<longrightarrow>
                 length (Z ! i) = nat 1 \<and> Z ! (i + nat 2 div 2) = map uminus (Z ! i)"
    by auto
  from pair [rule_format, of 0] have "Z ! 1 = map uminus (Z ! 0)"
    by simp
  moreover have "shock_matrix index_rng 2 1 = Inr [[1], [- 1]]"
    by (simp add: shock_matrix_def random_normal_def py_int_def index_rng_def)
  ultimately show ?thesis
    using Z by simp
qed

text \<open>
  Claim C8, as the code has it. The notebook has no check of the ensemble size and no
  \<open>InvalidEnsembleSizeError\<close>. For an odd, positive number of simulations the shock matrix
  has \<open>simulations - 1\<close> rows, building the parameter tuples reads the missing last row, and
  the simulator raises \<open>IndexError\<close>; no path ensemble is returned.
\<close>

theorem get_short_rates_odd_raises:
  assumes "odd simulations" and "0 < simulations" and "0 \<le> steps"
  shows "get_short_rates rng simulations steps dt r0 a sigma theta_param yc = Inl IndexError"
proof -
  define h where "h = nat (simulations div 2)"
  define Z where "Z = map (\<lambda>i. map (\<lambda>j. rng i j) [0..<nat steps]) [0..<h]
                @ map (\<lambda>i. map (\<lambda>j. - rng i j) [0..<nat steps]) [0..<h]"
  from assms(1) obtain b where b: "simulations = 2 * b + 1" by (elim oddE)
  with assms(2) have "nat simulations = Suc (2 * nat b)" "h = nat b"
    by (simp_all add: h_def nat_add_distrib nat_mult_distrib)
  then have n: "nat simulations = Suc (h + h)"
    by simp
  have Z: "shock_matrix rng simulations steps = Inr Z"
    using shock_matrix_value [of simulations steps rng] assms by (simp add: Z_def h_def)
  have len: "length Z = h + h" by (simp add: Z_def)
  have "simulation_params Z simulations steps dt r0 a sigma theta_param yc = Inl IndexError"
    unfolding simulation_params_def n upt_Suc_append [OF le0]
    by (rule py_map_append_Inl
          [where g = "\<lambda>i. (int i, Z ! i, steps, dt, r0, a, sigma, theta_param, yc)"])
       (simp_all add: py_getitem_nat len, simp add: py_getitem_def len)
  then show ?thesis
    using Z by (simp add: get_short_rates_def)
qed

theorem get_short_rates_odd_raises_witness:
  "odd (3 :: int) \<and> (0 :: int) < 3 \<and> (0 :: int) \<le> 2
   \<and> get_short_rates index_rng 3 2 1 0 1 1 zero_theta flat_curve = Inl IndexError"
  using get_short_rates_odd_raises [of 3 2 index_rng 1 0 1 1 zero_theta flat_curve] by simp

text \<open>Three simulations of two steps: the error is \<open>IndexError\<close>, not the one of the claim.\<close>

theorem get_short_rates_odd_counterexample:
  "get_short_rates index_rng 3 2 1 0 1 1 zero_theta flat_curve = Inl IndexError
   \<and> get_short_rates index_rng 3 2 1 0 1 1 zero_theta flat_curve \<noteq> Inl InvalidEnsembleSizeError"
proof -
  have "shock_matrix index_rng 3 2 = Inr [[1, 2], [- 1, - 2]]"
    by (simp add: shock_matrix_def random_normal_def py_int_def index_rng_def upt_rec)
  moreover have "[0..<nat 3] = [0, 1, 2]" by (simp add: upt_rec)
  ultimately have "get_short_rates index_rng 3 2 1 0 1 1 zero_theta flat_curve = Inl IndexError"
    by (simp add: get_short_rates_def simulation_params_def py_getitem_def)
  then show ?thesis by simp
qed

section \<open>Yield-curve construction\<close>

lemma np_diff_Cons2: "np_diff (x # y # zs) = (y - x) # np_diff (y # zs)"
  by (simp add: np_diff_def)

lemma not_increasing_iff: "list_ex (\<lambda>d. d \<le> 0) (np_diff xs) \<longleftrightarrow> \<not> sorted_wrt (<) xs"
proof (induction xs rule: induct_list012)
  case 1
  show ?case by (simp add: np_diff_def)
next
  case (2 x)
  show ?case by (simp add: np_diff_def)
next
  case (3 x y zs)
  have "sorted_wrt (<) (x # y # zs) \<longleftrightarrow> x < y \<and> sorted_wrt (<) (y # zs)"
    by (rule sorted_wrt2) (simp add: transp_on_def)
  with 3 show ?case
    by (auto simp: np_diff_Cons2)
qed

text \<open>
  Claim C9, as the code has it. \<open>create_yield_curve\<close> checks nothing itself and the notebook
  has no \<open>InvalidCurveError\<close>: for fewer than two points, or maturities that are not strictly
  increasing, the spline constructor's \<open>ValueError\<close> ends the construction, and no curve is
  returned.
\<close>

theorem create_yield_curve_invalid:
  assumes "length pts < 2 \<or> \<not> sorted_wrt (<) (map fst pts)"
  shows "create_yield_curve fit pts = Inl ValueError"
  using assms by (auto simp: create_yield_curve_def CubicSpline_def not_increasing_iff Let_def)

theorem create_yield_curve_invalid_witness:
  "(length [(2 :: real, 4 / 100 :: real), (1 / 2, 4 / 100)] < 2
      \<or> \<not> sorted_wrt (<) (map fst [(2 :: real, 4 / 100 :: real), (1 / 2, 4 / 100)]))
   \<and> create_yield_curve const_fit [(2, 4 / 100), (1 / 2, 4 / 100)] = Inl ValueError"
proof -
  have h: "length [(2 :: real, 4 / 100 :: real), (1 / 2, 4 / 100)] < 2
      \<or> \<not> sorted_wrt (<) (map fst [(2 :: real, 4 / 100 :: real), (1 / 2, 4 / 100)])"
    by (simp del: sorted_wrt.simps add: sorted_wrt2)
  show ?thesis
    using h create_yield_curve_invalid [OF h, of const_fit] by blast
qed

text \<open>A single point: the error is \<open>ValueError\<close>, not the one of the claim.\<close>

theorem create_yield_curve_counterexample:
  "create_yield_curve const_fit [(1 / 2, 4 / 100)] = Inl ValueError
   \<and> create_yield_curve const_fit [(1 / 2, 4 / 100)] \<noteq> Inl InvalidCurveError"
  by (simp add: create_yield_curve_def CubicSpline_def)

section \<open>Forward-rate aggregation\<close>

lemma forward_rates_temp_value:
  assumes nonneg: "\<And>x. 0 \<le> x \<Longrightarrow> 0 \<le> fl x"
    and "0 < tenor" and "0 \<le> months_per_year" and "s < length short_rate_paths"
    and "np_arange fl 0 T_m tenor = Inr periods"
  shows "forward_rates_temp fl months_per_year dt T_m tenor short_rate_paths s =
           Inr (map (\<lambda>t. \<Sum>k = nat \<lfloor>fl (months_per_year * t)\<rfloor>
                               ..<min (nat \<lfloor>fl (months_per_year * fl (t + tenor))\<rfloor>)
                                      (length (short_rate_paths ! s)).
                            short_rate_paths ! s ! k * dt)
                  periods)"
proof -
  have t0: "0 \<le> t" if "t \<in> set periods" for t
    using that assms(2,5) arange_item_nonneg [of fl tenor, OF nonneg]
    by (auto simp: np_arange_def split: if_splits)
  have "py_map
          (\<lambda>t. let start_id = py_int (fl (months_per_year * t));
                   finish_id = py_int (fl (months_per_year * fl (t + tenor)))
               in case py_getitem short_rate_paths (int s) of
                    Inl e \<Rightarrow> Inl e
                  | Inr path \<Rightarrow>
                      Inr (sum_list (map (\<lambda>x. x * dt) (py_slice path start_id finish_id))))
          periods
        = Inr (map (\<lambda>t. \<Sum>k = nat \<lfloor>fl (months_per_year * t)\<rfloor>
                               ..<min (nat \<lfloor>fl (months_per_year * fl (t + tenor))\<rfloor>)
                                      (length (short_rate_paths ! s)).
                            short_rate_paths ! s ! k * dt)
                  periods)"
  proof (rule py_map_Inr)
    fix t assume "t \<in> set periods"
    then have "0 \<le> t" by (rule t0)
    then have a: "0 \<le> fl (months_per_year * t)"
      using assms(3) by (intro nonneg) simp
    have "0 \<le> fl (t + tenor)" using \<open>0 \<le> t\<close> assms(2) by (intro nonneg) simp
    then have b: "0 \<le> fl (months_per_year * fl (t + tenor))"
      using assms(3) by (intro nonneg) simp
    show "(let start_id = py_int (fl (months_per_year * t));
                   finish_id = py_int (fl (months_per_year * fl (t + tenor)))
               in case py_getitem short_rate_paths (int s) of
                    Inl e \<Rightarrow> Inl e
                  | Inr path \<Rightarrow>
                      Inr (sum_list (map (\<lambda>x. x * dt) (py_slice path start_id finish_id))))
          = Inr (\<Sum>k = nat \<lfloor>fl (months_per_year * t)\<rfloor>
                               ..<min (nat \<lfloor>fl (months_per_year * fl (t + tenor))\<rfloor>)
                                      (length (short_rate_paths ! s)).
                            short_rate_paths ! s ! k * dt)"
      using a b assms(4)
      by (simp add: py_getitem_nat py_int_nonneg sum_list_py_slice Let_def)
  qed
  then show ?thesis
    by (simp add: forward_rates_temp_def assms(5))
qed

text \<open>
  For a positive tenor, a non-negative step rate, a path for every simulation and a rounding
  \<open>fl\<close> that keeps non-negative numbers non-negative, \<open>get_forward_rates\<close> returns, for
  every path, one exponent per period start \<open>t\<close> of \<^verbatim>\<open>np.arange(0.0, T_m, tenor)\<close>, equal to
  the sum of \<open>r[k] dt\<close> over the step indices \<open>k\<close> of the path with
  \<open>\<lfloor>months_per_year t\<rfloor> \<le> k < \<lfloor>months_per_year (t + tenor)\<rfloor>\<close>, where the sum \<open>t + tenor\<close> and
  the two products are the machine's, rounded by \<open>fl\<close>.
\<close>

lemma get_forward_rates_rounded:
  assumes "\<And>x. 0 \<le> x \<Longrightarrow> 0 \<le> fl x"
    and "0 < tenor" and "0 \<le> months_per_year"
    and "nat simulations \<le> length short_rate_paths"
  shows "\<exists>periods. np_arange fl 0 T_m tenor = Inr periods
           \<and> get_forward_rates fl simulations months_per_year dt T_m tenor short_rate_paths =
               Inr (map (\<lambda>s.
                      map (\<lambda>t. \<Sum>k = nat \<lfloor>fl (months_per_year * t)\<rfloor>
                                   ..<min (nat \<lfloor>fl (months_per_year * fl (t + tenor))\<rfloor>)
                                          (length (short_rate_paths ! s)).
                                short_rate_paths ! s ! k * dt)
                        periods)
                      [0..<nat simulations])"
proof -
  obtain periods where p: "np_arange fl 0 T_m tenor = Inr periods"
    using assms(2) by (simp add: np_arange_def)
  have "get_forward_rates fl simulations months_per_year dt T_m tenor short_rate_paths =
               Inr (map (\<lambda>s.
                      map (\<lambda>t. \<Sum>k = nat \<lfloor>fl (months_per_year * t)\<rfloor>
                                   ..<min (nat \<lfloor>fl (months_per_year * fl (t + tenor))\<rfloor>)
                                          (length (short_rate_paths ! s)).
                                short_rate_paths ! s ! k * dt)
                        periods)
                      [0..<nat simulations])"
    unfolding get_forward_rates_def
    by (rule py_map_Inr)
       (use assms(4) in \<open>simp add: forward_rates_temp_value [OF assms(1-3) _ p]\<close>)
  with p show ?thesis by blast
qed


text \<open>
  At the machine's rounding, for the floats 0.7 and 2.8, ten steps a year and a path of 28
  ones: the period starts are 0, 0.7, 1.4 and 2.0999999999999996, and the step ranges are
  \<open>[0,7)\<close>, \<open>[7,14)\<close>, \<open>[14,20)\<close> and \<open>[20,28)\<close>.
\<close>

lemma get_forward_rates_seven_tenths:
  "0 < double (7 / 10) \<and> (0 :: real) \<le> 10
   \<and> nat 1 \<le> length [replicate 28 (1 :: real)]
   \<and> np_arange double 0 (double (28 / 10)) (double (7 / 10))
        = Inr [0, double (7 / 10), double (14 / 10), 1182194902184755 / 562949953421312]
   \<and> get_forward_rates double 1 10 1 (double (28 / 10)) (double (7 / 10)) [replicate 28 1]
        = Inr [[7, 7, 6, 8]]"
proof -
  have pos: "0 < double (7 / 10)" by (simp add: double_at)
  have per: "np_arange double 0 (double (28 / 10)) (double (7 / 10))
        = Inr [0, double (7 / 10), double (14 / 10), 1182194902184755 / 562949953421312]"
    by (simp add: double_at np_arange_def arange_item_def upt_4)
  from get_forward_rates_rounded [of double "double (7 / 10)" 10 1 "[replicate 28 1]" "double (28 / 10)" 1,
      OF double_nonneg pos]
  obtain periods where
    a: "np_arange double 0 (double (28 / 10)) (double (7 / 10)) = Inr periods"
    and b: "get_forward_rates double 1 10 1 (double (28 / 10)) (double (7 / 10))
              [replicate 28 1]
            = Inr (map (\<lambda>s.
                      map (\<lambda>t. \<Sum>k = nat \<lfloor>double (10 * t)\<rfloor>
                                   ..<min (nat \<lfloor>double (10 * double (t + double (7 / 10)))\<rfloor>)
                                          (length ([replicate 28 1] ! s)).
                                [replicate 28 1] ! s ! k * 1)
                        periods)
                      [0..<nat 1])"
    by auto
  from a per have "periods
      = [0, double (7 / 10), double (14 / 10), 1182194902184755 / 562949953421312]"
    by simp
  with b have "get_forward_rates double 1 10 1 (double (28 / 10)) (double (7 / 10))
      [replicate 28 1] = Inr [[7, 7, 6, 8]]"
    by (simp add: double_at)
  with pos per show ?thesis
    by simp
qed



section \<open>Swap valuation\<close>

text \<open>
  With a valid rate index \<open>r = rates[int(months_per_year t)]\<close> and \<open>a \<noteq> 0\<close>, the loop of
  \<open>V\<close> adds one discounted payment per date, and \<open>V\<close> returns the swap value over the
  dates of \<^verbatim>\<open>np.arange(T_0+tenor, T_m+tenor, tenor)\<close>. In exact arithmetic these are the
  dates \<open>T_0 + tenor + l tenor\<close> below \<open>T_m + tenor\<close>.
\<close>

lemma V_loop_value:
  assumes "a \<noteq> 0" and "py_getitem rates (py_int (fl (months_per_year * t))) = Inr r"
  shows "V_loop fl months_per_year t tenor rates a sigma yc Ts term3 =
           Inr (term3 + (\<Sum>T_i\<leftarrow>Ts. bond_value t T_i r a sigma yc * tenor))"
  using assms by (induction Ts arbitrary: term3) (simp_all add: P_bond_value add.assoc)

lemma V_value:
  assumes "a \<noteq> 0" and "tenor \<noteq> 0"
    and "py_getitem rates (py_int (fl (months_per_year * t))) = Inr r"
  shows "V fl months_per_year t T_0 T_m N fixed_rate tenor rates a sigma yc =
           Inr (- N * (bond_value t T_0 r a sigma yc - bond_value t T_m r a sigma yc
                       - fixed_rate *
                         (\<Sum>T_i\<leftarrow>map (arange_item fl (fl (T_0 + tenor)) tenor)
                                   [0..<nat \<lceil>fl (fl (fl (T_m + tenor) - fl (T_0 + tenor)) / tenor)\<rceil>].
                             bond_value t T_i r a sigma yc * tenor)))"
  using assms
  by (simp add: V_def P_bond_value np_arange_def V_loop_value)

lemma V_exact_value:
  assumes "a \<noteq> 0" and "tenor \<noteq> 0"
    and "py_getitem rates (py_int (exact (months_per_year * t))) = Inr r"
  shows "V exact months_per_year t T_0 T_m N fixed_rate tenor rates a sigma yc =
           Inr (- N * (bond_value t T_0 r a sigma yc - bond_value t T_m r a sigma yc
                       - fixed_rate *
                         (\<Sum>l = 0..<nat \<lceil>(T_m - T_0) / tenor\<rceil>.
                             bond_value t (T_0 + tenor + real l * tenor) r a sigma yc * tenor)))"
  unfolding V_value [where fl = exact, OF assms]
  by (simp add: arange_item_exact [abs_def] comp_def interv_sum_list_conv_sum_set_nat)
     (simp add: exact_def)

lemma payment_sum_reindex:
  fixes F :: "real \<Rightarrow> real"
  assumes "j \<le> m"
  shows "(\<Sum>l = 0..<m - j. F (real j * tenor + tenor + real l * tenor))
           = (\<Sum>l = j + 1..m. F (real l * tenor))"
proof -
  have "(\<Sum>l = j + 1..m. F (real l * tenor)) = (\<Sum>l = 0 + (j + 1)..<(m - j) + (j + 1). F (real l * tenor))"
    using assms by (simp add: atLeastLessThanSuc_atLeastAtMost [symmetric])
  also have "\<dots> = (\<Sum>l = 0..<m - j. F (real (l + (j + 1)) * tenor))"
    by (rule sum.shift_bounds_nat_ivl)
  also have "\<dots> = (\<Sum>l = 0..<m - j. F (real j * tenor + tenor + real l * tenor))"
    by (rule sum.cong) (simp_all add: algebra_simps)
  finally show ?thesis by simp
qed

lemma step_index_valid:
  assumes "0 < months_per_year" and "0 < tenor" and "j < m"
    and "months_per_year * (real m * tenor) \<le> real (length rates)"
  shows "py_getitem rates (py_int (months_per_year * (real j * tenor)))
           = Inr (rates ! nat \<lfloor>months_per_year * (real j * tenor)\<rfloor>)"
proof -
  let ?x = "months_per_year * (real j * tenor)"
  have nonneg: "0 \<le> ?x" using assms by simp
  have "real j * tenor < real m * tenor" using assms by simp
  then have "?x < months_per_year * (real m * tenor)" using assms(1) by simp
  then have "?x < real (length rates)" using assms(4) by simp
  then have "\<lfloor>?x\<rfloor> < int (length rates)" by (simp add: floor_less_iff)
  moreover have "0 \<le> \<lfloor>?x\<rfloor>" using nonneg by simp
  ultimately show ?thesis
    using nonneg by (simp add: py_int_nonneg py_getitem_def)
qed

text \<open>
  In exact arithmetic, with \<open>T_m = m tenor\<close>, \<open>a \<noteq> 0\<close> and a path that covers the maturity,
  \<open>sim_swap_eval\<close> returns one value per exercise time \<open>t = j tenor\<close>, \<open>j = 1, \<dots>, m - 1\<close>,
  and that value is \<open>- N (P(t,t) - P(t,T_m) - K \<Sum> P(t,T_l) tenor)\<close> over the payment dates
  \<open>T_l = l tenor\<close> for \<open>l = j + 1, \<dots>, m\<close>, the last of which is \<open>T_m\<close>.
\<close>

lemma sim_swap_eval_exact:
  assumes "a \<noteq> 0" and "0 < tenor" and "T_m = real m * tenor"
    and "0 < months_per_year"
    and "months_per_year * T_m \<le> real (length short_rate_path)"
  shows "\<exists>vs. sim_swap_eval exact (i, months_per_year, T_m, tenor, N, fixed_rate, short_rate_path,
                               yc, a, sigma) = Inr vs
           \<and> length vs = m - 1
           \<and> (\<forall>j. 1 \<le> j \<and> j < m \<longrightarrow>
                (let t = real j * tenor;
                     r = short_rate_path ! nat \<lfloor>months_per_year * t\<rfloor>
                 in \<exists>p. (\<forall>T. P t T r a sigma yc = Inr (p T))
                        \<and> vs ! (j - 1) =
                            - N * (p t - p T_m
                                   - fixed_rate * (\<Sum>l = j + 1..m. p (real l * tenor) * tenor))))"
proof -
  define val where "val j =
      - N * (bond_value (real j * tenor) (real j * tenor)
                (short_rate_path ! nat \<lfloor>months_per_year * (real j * tenor)\<rfloor>) a sigma yc
             - bond_value (real j * tenor) T_m
                (short_rate_path ! nat \<lfloor>months_per_year * (real j * tenor)\<rfloor>) a sigma yc
             - fixed_rate *
                (\<Sum>l = j + 1..m. bond_value (real j * tenor) (real l * tenor)
                    (short_rate_path ! nat \<lfloor>months_per_year * (real j * tenor)\<rfloor>) a sigma yc
                    * tenor))" for j
  have cnt: "nat \<lceil>(T_m - tenor) / tenor\<rceil> = m - 1"
  proof -
    have "(T_m - tenor) / tenor = real_of_int (int m - 1)"
      using assms(2,3) by (simp add: field_simps)
    then show ?thesis by simp
  qed
  have one: "V exact months_per_year (real j * tenor) (real j * tenor) T_m N fixed_rate tenor
               short_rate_path a sigma yc = Inr (val j)" if "j < m" for j
  proof -
    have "(T_m - real j * tenor) / tenor = real_of_int (int (m - j))"
      using assms(2,3) that by (simp add: field_simps)
    then have cntj: "nat \<lceil>(T_m - real j * tenor) / tenor\<rceil> = m - j"
      by simp
    have idx: "py_getitem short_rate_path (py_int (exact (months_per_year * (real j * tenor))))
           = Inr (short_rate_path ! nat \<lfloor>months_per_year * (real j * tenor)\<rfloor>)"
      using step_index_valid [OF assms(4) assms(2) that] assms(3,5) by (simp add: exact_def)
    have "tenor \<noteq> 0" using assms(2) by simp
    from V_exact_value [OF assms(1) this idx, of "real j * tenor" T_m N fixed_rate sigma yc]
    show ?thesis
      using that
      by (simp add: cntj val_def payment_sum_reindex [of j m "\<lambda>T. bond_value (real j * tenor) T
            (short_rate_path ! nat \<lfloor>months_per_year * (real j * tenor)\<rfloor>) a sigma yc * tenor"])
  qed
  have cand: "V exact months_per_year (tenor + real k * tenor) (tenor + real k * tenor) T_m N
                fixed_rate tenor short_rate_path a sigma yc = Inr (val (Suc k))"
    if "k < m - 1" for k
  proof -
    have "tenor + real k * tenor = real (Suc k) * tenor"
      by (simp add: algebra_simps)
    moreover have "Suc k < m" using that by simp
    ultimately show ?thesis
      using one [of "Suc k"] by (simp only:)
  qed
  have "sim_swap_eval exact (i, months_per_year, T_m, tenor, N, fixed_rate, short_rate_path,
                        yc, a, sigma) = Inr (map (\<lambda>k. val (Suc k)) [0..<m - 1])"
  proof -
    have "np_arange exact tenor T_m tenor
            = Inr (map (\<lambda>k. tenor + real k * tenor) [0..<m - 1])"
      using assms(2) by (simp add: np_arange_exact cnt)
    moreover have "py_map (\<lambda>k. V exact months_per_year (tenor + real k * tenor)
                              (tenor + real k * tenor) T_m N fixed_rate tenor
                              short_rate_path a sigma yc) [0..<m - 1]
                     = Inr (map (\<lambda>k. val (Suc k)) [0..<m - 1])"
      by (rule py_map_Inr) (simp add: cand)
    ultimately show ?thesis
      by (simp add: py_map_map)
  qed
  moreover have "\<exists>p. (\<forall>T. P (real j * tenor) T
                       (short_rate_path ! nat \<lfloor>months_per_year * (real j * tenor)\<rfloor>) a sigma yc
                        = Inr (p T))
                \<and> val j = - N * (p (real j * tenor) - p T_m
                                   - fixed_rate * (\<Sum>l = j + 1..m. p (real l * tenor) * tenor))"
    for j
    by (rule exI [of _ "\<lambda>T. bond_value (real j * tenor) T
            (short_rate_path ! nat \<lfloor>months_per_year * (real j * tenor)\<rfloor>) a sigma yc"])
       (simp add: P_bond_value assms(1) val_def)
  ultimately show ?thesis
    by (auto simp: Let_def)
qed

text \<open>
  Claim C3 at the floats 0.1 and 0.2. With \<open>tenor = 0.1\<close> and \<open>T_m = 0.2\<close> the only exercise
  time is \<open>t = 0.1\<close>, and the claim has one payment date, \<open>T_m\<close>: with every bond price 1,
  \<open>N = 1\<close> and \<open>K = 1\<close> the swap value is \<open>tenor\<close>. On the machine \<open>T_m + tenor\<close> is
  0.30000000000000004 and \<^verbatim>\<open>np.arange(0.2, 0.30000000000000004, 0.1)\<close> has two elements:
  the code pays at \<open>T_m\<close> and again at 0.30000000000000004, after \<open>T_m\<close>, and returns
  \<open>2 tenor\<close>. In exact arithmetic it returns \<open>tenor\<close>.
\<close>

theorem sim_swap_eval_pays_after_maturity:
  "sim_swap_eval double (0, 10, double (2 / 10), double (1 / 10), 1, 1, [0, 0], zero_curve, 1, 0)
     = Inr [2 * double (1 / 10)]
   \<and> np_arange double (double (double (1 / 10) + double (1 / 10)))
         (double (double (2 / 10) + double (1 / 10))) (double (1 / 10))
       = Inr [double (2 / 10), 1351079888211149 / 4503599627370496]
   \<and> double (2 / 10) < 1351079888211149 / 4503599627370496
   \<and> sim_swap_eval exact (0, 10, 2 / 10, 1 / 10, 1, 1, [0, 0], zero_curve, 1, 0)
       = Inr [1 / 10]"
proof -
  have machine:
    "sim_swap_eval double
        (0, 10, double (2 / 10), double (1 / 10), 1, 1, [0, 0], zero_curve, 1, 0)
       = Inr [2 * double (1 / 10)]
     \<and> np_arange double (double (double (1 / 10) + double (1 / 10)))
           (double (double (2 / 10) + double (1 / 10))) (double (1 / 10))
         = Inr [double (2 / 10), 1351079888211149 / 4503599627370496]
     \<and> double (2 / 10) < 1351079888211149 / 4503599627370496"
    by (simp add: double_at np_arange_def arange_item_def V_def P_def A_def B_def
          py_getitem_def py_int_def zero_curve_def upt_2)
  have ideal:
    "sim_swap_eval exact (0, 10, 2 / 10, 1 / 10, 1, 1, [0, 0], zero_curve, 1, 0)
       = Inr [1 / 10]"
    by (simp add: np_arange_exact V_def P_def A_def B_def exact_def
          py_getitem_def py_int_def zero_curve_def)
  from machine ideal show ?thesis
    by blast
qed






section \<open>The estimator's discount horizon\<close>

text \<open>
  For \<open>T_n \<ge> 0\<close>, a non-empty ensemble and a row of exponents per path, the estimator is
  the mean of \<open>max(swap value, 0) exp(- \<Sum> exponents)\<close>, the sum over the first
  \<open>\<lfloor>T_n\<rfloor> + 1\<close> periods of the row.
\<close>

lemma positive_swap_value:
  assumes "0 \<le> T_n" and "i < length forward_rates"
  shows "positive_swap swap_values T_n forward_rates i =
           Inr (max (swap_values ! i) 0
                * exp (- sum_list (take (nat \<lfloor>T_n\<rfloor> + 1) (forward_rates ! i))))"
proof -
  have "0 \<le> \<lfloor>T_n\<rfloor>" using assms(1) by simp
  then have stop: "\<not> \<lfloor>T_n\<rfloor> + 1 < 0" "nat (\<lfloor>T_n\<rfloor> + 1) = nat \<lfloor>T_n\<rfloor> + 1"
    by linarith+
  have "take (min (length xs) k) xs = take k xs" for k and xs :: "real list"
    by (simp add: min_def)
  then have "py_slice (forward_rates ! i) 0 (py_int T_n + 1)
               = take (nat \<lfloor>T_n\<rfloor> + 1) (forward_rates ! i)"
    using assms(1) by (simp add: py_slice_def py_clamp_def py_int_nonneg stop)
  then show ?thesis
    using assms(2) by (simp add: positive_swap_def py_getitem_nat Let_def max_def)
qed

lemma price_european_MC_value:
  assumes "0 \<le> T_n" and "swap_values \<noteq> []"
    and "length swap_values \<le> length forward_rates"
  shows "price_european_MC swap_values T_n forward_rates =
           Inr ((\<Sum>i = 0..<length swap_values.
                   max (swap_values ! i) 0
                   * exp (- sum_list (take (nat \<lfloor>T_n\<rfloor> + 1) (forward_rates ! i))))
                / real (length swap_values))"
proof -
  have "py_map (positive_swap swap_values T_n forward_rates) [0..<length swap_values]
          = Inr (map (\<lambda>i. max (swap_values ! i) 0
                   * exp (- sum_list (take (nat \<lfloor>T_n\<rfloor> + 1) (forward_rates ! i))))
                  [0..<length swap_values])"
    by (rule py_map_Inr) (use assms in \<open>simp add: positive_swap_value\<close>)
  then show ?thesis
    using assms(2) by (simp add: price_european_MC_def interv_sum_list_conv_sum_set_nat)
qed

text \<open>
  Claim C4 at an annual tenor. The exercise date is the first tenor date, so the discount
  should cover the first period only: with the exponents \<open>[0.04, 0.04]\<close> and swap value 1
  the claim gives \<open>exp(- 0.04)\<close>. The notebook passes \<open>tenor\<close> for \<open>T_n\<close>, and for
  \<open>tenor = 1\<close> the slice \<^verbatim>\<open>:int(T_n)+1\<close> takes two periods: the result is
  \<open>exp(- 0.08)\<close>.
\<close>

theorem sim_value_annual_tenor:
  "sim_value [[1]] 1 [[4 / 100, 4 / 100]] = Inr (exp (- (8 / 100)))
   \<and> sim_value [[1]] 1 [[4 / 100, 4 / 100]] \<noteq> Inr (max 1 0 * exp (- (4 / 100)))"
  by (simp add: sim_value_def price_european_MC_def positive_swap_def py_getitem_def
        py_slice_def py_clamp_def py_int_def)

end
